theory Spec2Isabelle
  imports Main
begin

section \<open>Secret rotation (rotate\_secrets.py)\<close>

subsection \<open>Exceptions\<close>

text \<open>
  Every exception the rotation module and the identity triggers can meet is a value.
  \<open>SecretNotFound\<close> and \<open>InvalidParameter\<close> are raised by the Secret Store client,
  the others by the Python code itself. \<open>str_exn\<close> is Python's \<open>str(e)\<close>.
\<close>

datatype exn =
    ValueError string
  | NameError string
  | KeyError string
  | IndexError
  | SecretNotFound string
  | InvalidParameter string
  | ServiceError string

fun str_exn :: "exn \<Rightarrow> string" where
  "str_exn (ValueError m) = m"
| "str_exn (NameError n) = ''name '' @ [CHR 0x27] @ n @ [CHR 0x27] @ '' is not defined''"
| "str_exn (KeyError k) = [CHR 0x27] @ k @ [CHR 0x27]"
| "str_exn IndexError = ''list index out of range''"
| "str_exn (SecretNotFound s) = ''SecretNotFound: '' @ s"
| "str_exn (InvalidParameter p) = ''InvalidParameter: '' @ p"
| "str_exn (ServiceError m) = m"

subsection \<open>The Secret Store\<close>

text \<open>
  A secret has versions; a version has a store-assigned identifier, a value (the
  \<open>SecretString\<close>: the JSON text of a mapping from field name to string, which
  \<open>json.loads\<close> turns into the mapping and \<open>json.dumps\<close> back) and a set of stage
  labels. The labels \<open>AWSCURRENT\<close>, \<open>AWSPENDING\<close> and \<open>AWSPREVIOUS\<close> of the
  source are \<open>CURRENT\<close>, \<open>PENDING\<close> and \<open>PREVIOUS\<close>. A string is the list of
  its characters, so \<open>length\<close> is Python's \<open>len\<close>.

  The world a rotation step runs in holds the store's content, the list of the calls made
  to the store client so far (failed calls included), and the number of values drawn from
  the secure random source so far.
\<close>

datatype stage = CURRENT | PENDING | PREVIOUS

type_synonym secret_value = "string \<rightharpoonup> string"

record version =
  version_id :: string
  secret_string :: secret_value
  stages :: "stage set"

datatype store_call =
    GetSecretValue string "stage option"
  | PutSecretValue string secret_value stage
  | DescribeSecret string
  | UpdateSecretVersionStage string stage "string option"

record world =
  secrets :: "string \<rightharpoonup> version list"
  calls :: "store_call list"
  drawn :: nat

text \<open>
  What a step reads but cannot change: the secure random source (the \<open>i\<close>-th value it
  hands out) and the clock's reading in ISO format.
\<close>

record env =
  rng :: "nat \<Rightarrow> nat"
  utcnow :: string

definition holders :: "stage \<Rightarrow> version list \<Rightarrow> version list" where
  "holders l vs = filter (\<lambda>v. l \<in> stages v) vs"

definition logged :: "store_call \<Rightarrow> world \<Rightarrow> world" where
  "logged c w = w\<lparr>calls := calls w @ [c]\<rparr>"

definition get_secret_value ::
  "string \<Rightarrow> stage option \<Rightarrow> world \<Rightarrow> (exn + version) \<times> world" where
  \<comment> \<open>Modelled from the spec: the Secret Store client is not part of the repository's
      sources. GetVersion(secretId, stageLabel?) returns the version that carries the
      requested label and fails NotFound if no version carries it; without a label it
      reads the CURRENT value.\<close>
  "get_secret_value sid l w =
     (let w' = logged (GetSecretValue sid l) w in
      case secrets w sid of
        None \<Rightarrow> (Inl (SecretNotFound sid), w')
      | Some vs \<Rightarrow>
          (case holders (case l of None \<Rightarrow> CURRENT | Some s \<Rightarrow> s) vs of
             [] \<Rightarrow> (Inl (SecretNotFound sid), w')
           | v # _ \<Rightarrow> (Inr v, w')))"

definition fresh_version_id :: "version list \<Rightarrow> string" where
  \<comment> \<open>an identifier longer than every identifier in use\<close>
  "fresh_version_id vs =
     replicate (Suc (foldr max (map (length \<circ> version_id) vs) 0)) (CHR ''v'')"

definition put_secret_value ::
  "string \<Rightarrow> secret_value \<Rightarrow> stage \<Rightarrow> world \<Rightarrow> (exn + string) \<times> world" where
  \<comment> \<open>Modelled from the spec: the Secret Store client is not part of the repository's
      sources. PutVersion(secretId, value, stageLabel) creates a new version tagged with
      exactly the given label and does not remove labels from other versions.\<close>
  "put_secret_value sid val l w =
     (let w' = logged (PutSecretValue sid val l) w in
      case secrets w sid of
        None \<Rightarrow> (Inl (SecretNotFound sid), w')
      | Some vs \<Rightarrow>
          (let vid = fresh_version_id vs;
               v = \<lparr>version_id = vid, secret_string = val, stages = {l}\<rparr>
           in (Inr vid, w'\<lparr>secrets := (secrets w)(sid \<mapsto> vs @ [v])\<rparr>)))"

definition stage_name :: "stage \<Rightarrow> string" where
  "stage_name l =
     (case l of CURRENT \<Rightarrow> ''AWSCURRENT'' | PENDING \<Rightarrow> ''AWSPENDING''
      | PREVIOUS \<Rightarrow> ''AWSPREVIOUS'')"

definition stage_list :: "stage set \<Rightarrow> stage list" where
  \<comment> \<open>the labels of a version, as a list\<close>
  "stage_list ls = filter (\<lambda>l. l \<in> ls) [CURRENT, PENDING, PREVIOUS]"

definition describe_secret ::
  "string \<Rightarrow> world \<Rightarrow> (exn + (string \<rightharpoonup> stage list)) \<times> world" where
  \<comment> \<open>Modelled from the spec: the Secret Store client is not part of the repository's
      sources. The store describes a secret by its version-stage map; the entry of the
      description that the source reads is \<open>VersionIdsToStages\<close>, which has one key for
      each version identifier of the secret and maps it to the list of the stage labels
      that version carries.\<close>
  "describe_secret sid w =
     (let w' = logged (DescribeSecret sid) w in
      case secrets w sid of
        None \<Rightarrow> (Inl (SecretNotFound sid), w')
      | Some vs \<Rightarrow>
          (Inr (\<lambda>vid. case List.find (\<lambda>v. version_id v = vid) vs of
                         None \<Rightarrow> None
                       | Some v \<Rightarrow> Some (stage_list (stages v))), w'))"

definition demote_label :: "stage \<Rightarrow> stage \<Rightarrow> version \<Rightarrow> version" where
  \<comment> \<open>Modelled from the spec: DemoteLabel(secretId, label, toLabel), on one version. The
      holder of \<open>label\<close> is relabelled \<open>toLabel\<close>, replacing any prior holder of
      \<open>toLabel\<close>.\<close>
  "demote_label l t v =
     (if l \<in> stages v then v\<lparr>stages := insert t (stages v - {l})\<rparr>
      else v\<lparr>stages := stages v - {t}\<rparr>)"

definition promote_label :: "stage \<Rightarrow> stage \<Rightarrow> string \<Rightarrow> version \<Rightarrow> version" where
  \<comment> \<open>Modelled from the spec: PromoteLabel(secretId, fromLabel, toLabel), on one version.
      The version the call names trades \<open>fromLabel\<close> for \<open>toLabel\<close>.\<close>
  "promote_label f t vid v =
     (if version_id v = vid then v\<lparr>stages := insert t (stages v - {f})\<rparr> else v)"

definition relabel :: "string \<Rightarrow> version \<Rightarrow> version" where
  \<comment> \<open>Modelled from the spec: the two relabel operations used together, on one
      version, when CURRENT is moved to the version \<open>vid\<close>.\<close>
  "relabel vid = promote_label PENDING CURRENT vid \<circ> demote_label CURRENT PREVIOUS"

definition update_secret_version_stage ::
  "string \<Rightarrow> stage \<Rightarrow> string option \<Rightarrow> world \<Rightarrow> (exn + unit) \<times> world" where
  \<comment> \<open>Modelled from the spec: the Secret Store client is not part of the repository's
      sources. Moving CURRENT to a version is the single atomic relabel-and-promote call:
      the CURRENT version is relabelled PREVIOUS (replacing any prior PREVIOUS) and the
      named version is relabelled from PENDING to CURRENT; it either fully succeeds or
      fully fails. Any other label is taken from its holders and given to the named
      version.\<close>
  "update_secret_version_stage sid l move_to w =
     (let w' = logged (UpdateSecretVersionStage sid l move_to) w in
      case secrets w sid of
        None \<Rightarrow> (Inl (SecretNotFound sid), w')
      | Some vs \<Rightarrow>
          (case move_to of
             None \<Rightarrow> (Inl (InvalidParameter ''MoveToVersionId''), w')
           | Some vid \<Rightarrow>
               if vid \<notin> set (map version_id vs) then (Inl (SecretNotFound sid), w')
               else if l = CURRENT then
                 (Inr (), w'\<lparr>secrets := (secrets w)(sid \<mapsto> map (relabel vid) vs)\<rparr>)
               else
                 (Inr (), w'\<lparr>secrets := (secrets w)(sid \<mapsto>
                    map (\<lambda>v. v\<lparr>stages := (if version_id v = vid then insert l (stages v)
                                             else stages v - {l})\<rparr>) vs)\<rparr>)))"

subsection \<open>The random source and the clock\<close>

text \<open>
  \<open>secrets.choice(seq)\<close> is \<open>seq[randbelow(len(seq))]\<close>: one value of the random
  source, below the length of the sequence (the only sequence the source chooses from is
  the alphabet of 70 characters, so the empty sequence, on which Python raises, does not
  occur). \<open>secrets.token_urlsafe(n)\<close> is the URL-safe base64 text of \<open>n\<close> random
  bytes with the padding stripped.
\<close>

definition ascii_letters :: string where
  "ascii_letters = ''abcdefghijklmnopqrstuvwxyzABCDEFGHIJKLMNOPQRSTUVWXYZ''"

definition digits :: string where
  "digits = ''0123456789''"

definition alphabet :: string where
  "alphabet = ascii_letters @ digits @ ''!@#$%^&*''"

definition secrets_choice :: "env \<Rightarrow> string \<Rightarrow> world \<Rightarrow> char \<times> world" where
  "secrets_choice e seq w =
     (seq ! (rng e (drawn w) mod length seq), w\<lparr>drawn := Suc (drawn w)\<rparr>)"

fun choices :: "env \<Rightarrow> string \<Rightarrow> nat \<Rightarrow> world \<Rightarrow> string \<times> world" where
  "choices e seq 0 w = ([], w)"
| "choices e seq (Suc n) w =
     (case secrets_choice e seq w of (c, w1) \<Rightarrow>
        (case choices e seq n w1 of (cs, w2) \<Rightarrow> (c # cs, w2)))"

definition b64_char :: "nat \<Rightarrow> char" where
  "b64_char i =
     (''ABCDEFGHIJKLMNOPQRSTUVWXYZabcdefghijklmnopqrstuvwxyz0123456789-_'') ! (i mod 64)"

fun urlsafe_b64 :: "nat list \<Rightarrow> string" where
  "urlsafe_b64 (a # b # c # rest) =
     (let n = a * 65536 + b * 256 + c in
      [b64_char (n div 262144), b64_char (n div 4096), b64_char (n div 64), b64_char n]
        @ urlsafe_b64 rest)"
| "urlsafe_b64 [a, b] =
     (let n = a * 65536 + b * 256 in
      [b64_char (n div 262144), b64_char (n div 4096), b64_char (n div 64)])"
| "urlsafe_b64 [a] =
     (let n = a * 65536 in [b64_char (n div 262144), b64_char (n div 4096)])"
| "urlsafe_b64 [] = []"

definition token_urlsafe :: "env \<Rightarrow> nat \<Rightarrow> world \<Rightarrow> string \<times> world" where
  "token_urlsafe e n w =
     (urlsafe_b64 (map (\<lambda>i. rng e (drawn w + i) mod 256) [0..<n]),
      w\<lparr>drawn := drawn w + n\<rparr>)"

text \<open>
  The names bound at module level in rotate\_secrets.py: its imports (\<open>json\<close>,
  \<open>boto3\<close>, \<open>os\<close>, \<open>logging\<close>, \<open>Dict\<close>, \<open>Any\<close>), its two globals and its five
  functions. The only imports inside \<open>create_secret\<close> are \<open>secrets\<close> and
  \<open>string\<close>. Reading a name that is bound nowhere raises \<open>NameError\<close>; line 107
  reads \<open>datetime\<close>.
\<close>

definition module_names :: "string list" where
  "module_names =
     [''json'', ''boto3'', ''os'', ''logging'', ''Dict'', ''Any'', ''logger'',
      ''secrets_client'', ''handler'', ''create_secret'', ''set_secret'', ''test_secret'',
      ''finish_secret'']"

definition create_secret_names :: "string list" where
  "create_secret_names =
     [''secret_arn'', ''current'', ''current_secret'', ''secrets'', ''string'', ''alphabet'',
      ''new_password'', ''new_key'', ''e'']"

definition datetime_utcnow_isoformat :: "env \<Rightarrow> exn + string" where
  "datetime_utcnow_isoformat e =
     (if ''datetime'' \<in> set (create_secret_names @ module_names) then Inr (utcnow e)
      else Inl (NameError ''datetime''))"

subsection \<open>The four steps and the handler\<close>

text \<open>
  Each step returns what the Python function returns (\<open>Inr ()\<close>) or the exception it
  raises (\<open>Inl\<close>), and the world it leaves. The \<open>try ... except Exception: log; raise\<close>
  around each body raises the same exception again, so it does not show. Logging has no
  effect on any of this and is left out.
\<close>

definition create_secret :: "env \<Rightarrow> string \<Rightarrow> world \<Rightarrow> (exn + unit) \<times> world" where
  "create_secret e secret_arn w =
     (case get_secret_value secret_arn None w of
        (Inl x, w1) \<Rightarrow> (Inl x, w1)
      | (Inr current, w1) \<Rightarrow>
          (let current_secret = secret_string current;
               generated =
                 (if current_secret ''api_key'' \<noteq> None then None
                  else if current_secret ''password'' \<noteq> None then
                    (case choices e alphabet 32 w1 of (new_password, w2) \<Rightarrow>
                       Some (current_secret(''password'' \<mapsto> new_password), w2))
                  else if current_secret ''key'' \<noteq> None then
                    (case token_urlsafe e 32 w1 of (new_key, w2) \<Rightarrow>
                       Some (current_secret(''key'' \<mapsto> new_key), w2))
                  else None)
           in case generated of
                None \<Rightarrow> (Inr (), w1)
              | Some (new_secret, w2) \<Rightarrow>
                  (case datetime_utcnow_isoformat e of
                     Inl x \<Rightarrow> (Inl x, w2)
                   | Inr created_at \<Rightarrow>
                       (case put_secret_value secret_arn
                               (new_secret(''created_at'' \<mapsto> created_at)) PENDING w2 of
                          (Inl x, w3) \<Rightarrow> (Inl x, w3)
                        | (Inr _, w3) \<Rightarrow> (Inr (), w3)))))"

definition set_secret :: "string \<Rightarrow> world \<Rightarrow> (exn + unit) \<times> world" where
  "set_secret secret_arn w = (Inr (), w)"

definition test_secret :: "string \<Rightarrow> world \<Rightarrow> (exn + unit) \<times> world" where
  "test_secret secret_arn w =
     (case get_secret_value secret_arn (Some PENDING) w of
        (Inl x, w1) \<Rightarrow> (Inl x, w1)
      | (Inr pending, w1) \<Rightarrow>
          (let secret_data = secret_string pending in
           case secret_data ''password'' of
             Some password \<Rightarrow>
               if length password < 8 then (Inl (ValueError ''Password too short''), w1)
               else (Inr (), w1)
           | None \<Rightarrow>
               (case secret_data ''key'' of
                  Some key \<Rightarrow>
                    if length key < 16 then (Inl (ValueError ''Key too short''), w1)
                    else (Inr (), w1)
                | None \<Rightarrow> (Inr (), w1))))"

definition pending_version_id :: "(string \<rightharpoonup> stage list) \<Rightarrow> exn + string option" where
  \<comment> \<open>line 160: \<open>[...]['VersionIdsToStages'].get('AWSPENDING', [None])[0]\<close>. The
      label is looked up as a key of the map from version identifiers; where no version
      has that identifier the default \<open>[None]\<close> is taken and its element 0 is
      \<open>None\<close>.\<close>
  "pending_version_id version_ids_to_stages =
     (case version_ids_to_stages ''AWSPENDING'' of
        None \<Rightarrow> Inr None
      | Some [] \<Rightarrow> Inl IndexError
      | Some (l # _) \<Rightarrow> Inr (Some (stage_name l)))"

definition finish_secret :: "string \<Rightarrow> world \<Rightarrow> (exn + unit) \<times> world" where
  "finish_secret secret_arn w =
     (case describe_secret secret_arn w of
        (Inl x, w1) \<Rightarrow> (Inl x, w1)
      | (Inr description, w1) \<Rightarrow>
          (case pending_version_id description of
             Inl x \<Rightarrow> (Inl x, w1)
           | Inr move_to \<Rightarrow> update_secret_version_stage secret_arn CURRENT move_to w1))"

text \<open>
  The invocation event carries \<open>SecretId\<close> and \<open>Step\<close>, either of which may be
  missing. The response is the status code and the body, whose JSON object holds either
  \<open>message\<close> and \<open>secretArn\<close> or \<open>error\<close> and \<open>secretArn\<close>.
\<close>

record rotation_event =
  SecretId :: "string option"
  Step :: "string option"

datatype body = Message string string | Error string string

record rotation_response =
  statusCode :: nat
  body :: body

definition run_step :: "env \<Rightarrow> string \<Rightarrow> string \<Rightarrow> world \<Rightarrow> (exn + unit) \<times> world" where
  \<comment> \<open>lines 44 to 53: the routing on the step name\<close>
  "run_step e step secret_arn w =
     (if step = ''createSecret'' then create_secret e secret_arn w
      else if step = ''setSecret'' then set_secret secret_arn w
      else if step = ''testSecret'' then test_secret secret_arn w
      else if step = ''finishSecret'' then finish_secret secret_arn w
      else (Inl (ValueError (''Unknown step: '' @ step)), w))"

definition failure :: "rotation_event \<Rightarrow> exn \<Rightarrow> rotation_response" where
  \<comment> \<open>lines 65 to 73: the \<open>except Exception\<close> branch of the handler\<close>
  "failure event x =
     \<lparr>statusCode = 500,
      body = Error (str_exn x) (case SecretId event of None \<Rightarrow> ''unknown'' | Some s \<Rightarrow> s)\<rparr>"

definition handler :: "env \<Rightarrow> rotation_event \<Rightarrow> world \<Rightarrow> rotation_response \<times> world" where
  "handler e event w =
     (case SecretId event of
        None \<Rightarrow> (failure event (ValueError ''SecretId not provided in event''), w)
      | Some secret_arn \<Rightarrow>
          if secret_arn = [] then
            (failure event (ValueError ''SecretId not provided in event''), w)
          else
            (let step = (case Step event of None \<Rightarrow> ''createSecret'' | Some s \<Rightarrow> s) in
             case run_step e step secret_arn w of
               (Inl x, w1) \<Rightarrow> (failure event x, w1)
             | (Inr _, w1) \<Rightarrow>
                 (\<lparr>statusCode = 200,
                   body = Message (''Successfully completed '' @ step @ '' for secret rotation'')
                            secret_arn\<rparr>, w1)))"

subsection \<open>The Secret Type Policy as the specification words it\<close>

text \<open>
  The specification classifies a value in the fixed priority order
  \<open>api_key > password > key > unknown\<close> and keys the validation rule of
  \<open>testSecret\<close> to the same classification: a password shorter than 8 or a key shorter
  than 16 is rejected, unknown and manual types pass. These two definitions follow the
  specification's words; they are compared with \<open>test_secret\<close> below.
\<close>

datatype secret_kind = ApiKey | Password | SymmetricKey | Unknown

definition spec_classify :: "secret_value \<Rightarrow> secret_kind" where
  "spec_classify d =
     (if d ''api_key'' \<noteq> None then ApiKey
      else if d ''password'' \<noteq> None then Password
      else if d ''key'' \<noteq> None then SymmetricKey
      else Unknown)"

definition spec_validation_fails :: "secret_value \<Rightarrow> bool" where
  "spec_validation_fails d =
     (case spec_classify d of
        Password \<Rightarrow> (case d ''password'' of None \<Rightarrow> False | Some p \<Rightarrow> length p < 8)
      | SymmetricKey \<Rightarrow> (case d ''key'' of None \<Rightarrow> False | Some k \<Rightarrow> length k < 16)
      | ApiKey \<Rightarrow> False
      | Unknown \<Rightarrow> False)"

subsection \<open>Some concrete stores\<close>

definition counting_env :: env where
  "counting_env = \<lparr>rng = (\<lambda>i. 7 * i + 3), utcnow = ''2024-05-01T12:00:00''\<rparr>"

definition old_password :: version where
  "old_password =
     \<lparr>version_id = ''v1'', secret_string = [''password'' \<mapsto> ''old''], stages = {CURRENT}\<rparr>"

definition candidate_password :: version where
  "candidate_password =
     \<lparr>version_id = ''v2'',
      secret_string = [''password'' \<mapsto> ''k3Vw!xQ9@pLm2#Zt8$Rb5%Nc7^Hd1&Jf'',
                       ''created_at'' \<mapsto> ''2024-04-30T08:15:00''],
      stages = {PENDING}\<rparr>"

definition password_world :: world where
  "password_world =
     \<lparr>secrets = [''arn:db'' \<mapsto> [old_password]], calls = [], drawn = 0\<rparr>"

definition rotating_world :: world where
  "rotating_world =
     \<lparr>secrets = [''arn:db'' \<mapsto> [old_password, candidate_password]], calls = [], drawn = 0\<rparr>"

definition vendor_current :: version where
  "vendor_current =
     \<lparr>version_id = ''v1'',
      secret_string = [''api_key'' \<mapsto> ''sk-live-0001'', ''password'' \<mapsto> ''portal-login''],
      stages = {CURRENT}\<rparr>"

definition vendor_pending :: version where
  "vendor_pending =
     \<lparr>version_id = ''v2'',
      secret_string = [''api_key'' \<mapsto> ''sk-live-0002'', ''password'' \<mapsto> ''short''],
      stages = {PENDING}\<rparr>"

definition vendor_world :: world where
  "vendor_world =
     \<lparr>secrets = [''arn:vendor'' \<mapsto> [vendor_current, vendor_pending]], calls = [], drawn = 0\<rparr>"

section \<open>Identity triggers (cognito\_triggers)\<close>

subsection \<open>Events\<close>

text \<open>
  A trigger event is a dictionary with the user name, the trigger source, the request
  (user attributes and, for messages, the code parameter) and the response the trigger
  fills in. Any key may be missing. A rendered message is kept as its template and the
  values interpolated into it (the greeting name, where the template has one, and the
  code).
\<close>

type_synonym attributes = "string \<rightharpoonup> string"

datatype email_template =
  SignUp | ResendCode | ForgotPassword | UpdateUserAttribute | VerifyUserAttribute
  | Authentication

datatype email_message = Email email_template "string option" string

record cognito_request =
  userAttributes :: "attributes option"
  codeParameter :: "string option"

record cognito_response =
  emailSubject :: "string option"
  emailMessage :: "email_message option"
  autoConfirmUser :: "bool option"
  autoVerifyEmail :: "bool option"
  responseAttributes :: "attributes option"

record event =
  userName :: "string option"
  triggerSource :: "string option"
  request :: "cognito_request option"
  response :: "cognito_response option"

text \<open>
  What the triggers read from outside: the \<open>PROJECT_NAME\<close> variable, the exception a
  write to a table of the profile store raises (if any), today's date, and
  \<open>datetime.strptime(s, '%Y-%m-%d').date()\<close> as year, month and day (\<open>None\<close> where
  it raises \<open>ValueError\<close>). The state of the profile store is the list of the writes
  made, each with its table and key.
\<close>

record services =
  project_name :: "string option"
  table_error :: "string \<Rightarrow> exn option"
  today :: "nat \<times> nat \<times> nat"
  strptime :: "string \<Rightarrow> (nat \<times> nat \<times> nat) option"

type_synonym writes = "(string \<times> string) list"

definition get_str :: "string option \<Rightarrow> string \<Rightarrow> string" where
  \<comment> \<open>\<open>d.get(k, default)\<close>, given the entry of \<open>k\<close>\<close>
  "get_str entry dflt = (case entry of None \<Rightarrow> dflt | Some s \<Rightarrow> s)"

definition get_user_attributes :: "event \<Rightarrow> attributes" where
  \<comment> \<open>\<open>event.get('request', {}).get('userAttributes', {})\<close>\<close>
  "get_user_attributes ev =
     (case request ev of
        None \<Rightarrow> Map.empty
      | Some rq \<Rightarrow> (case userAttributes rq of None \<Rightarrow> Map.empty | Some ua \<Rightarrow> ua))"

definition table_name :: "services \<Rightarrow> string \<Rightarrow> string" where
  "table_name sv suffix = get_str (project_name sv) ''innerworld'' @ suffix"

definition table_write :: "services \<Rightarrow> string \<Rightarrow> string \<Rightarrow> writes \<Rightarrow> exn option \<times> writes" where
  "table_write sv table k ws =
     (case table_error sv table of
        Some x \<Rightarrow> (Some x, ws)
      | None \<Rightarrow> (None, ws @ [(table, k)]))"

subsection \<open>custom\_message.py\<close>

text \<open>
  A customizer changes the event in place and returns nothing, or raises. It is modelled
  as returning the exception raised (if any) together with the event as the customizer
  leaves it, so that a change made before a failure would show.
\<close>

definition request_code_parameter :: "event \<Rightarrow> exn + string" where
  \<comment> \<open>\<open>event['request']['codeParameter']\<close>\<close>
  "request_code_parameter ev =
     (case request ev of
        None \<Rightarrow> Inl (KeyError ''request'')
      | Some rq \<Rightarrow>
          (case codeParameter rq of
             None \<Rightarrow> Inl (KeyError ''codeParameter'')
           | Some c \<Rightarrow> Inr c))"

definition set_email :: "string \<Rightarrow> email_message \<Rightarrow> event \<Rightarrow> exn option \<times> event" where
  \<comment> \<open>\<open>event['response']['emailSubject'] = ...; event['response']['emailMessage'] = ...\<close>\<close>
  "set_email subject message ev =
     (case response ev of
        None \<Rightarrow> (Some (KeyError ''response''), ev)
      | Some rs \<Rightarrow>
          (case response (ev\<lparr>response := Some (rs\<lparr>emailSubject := Some subject\<rparr>)\<rparr>) of
             None \<Rightarrow> (Some (KeyError ''response''),
                       ev\<lparr>response := Some (rs\<lparr>emailSubject := Some subject\<rparr>)\<rparr>)
           | Some rs1 \<Rightarrow>
               (None, ev\<lparr>response := Some (rs1\<lparr>emailMessage := Some message\<rparr>)\<rparr>)))"

definition customize_signup_message :: "event \<Rightarrow> attributes \<Rightarrow> exn option \<times> event" where
  "customize_signup_message ev user_attributes =
     (let given_name = get_str (user_attributes ''given_name'') ''Friend'' in
      case request_code_parameter ev of
        Inl x \<Rightarrow> (Some x, ev)
      | Inr code_parameter \<Rightarrow>
          set_email ''Welcome to InnerWorld - Verify Your Email''
            (Email SignUp (Some given_name) code_parameter) ev)"

definition customize_resend_code_message :: "event \<Rightarrow> attributes \<Rightarrow> exn option \<times> event" where
  "customize_resend_code_message ev user_attributes =
     (let given_name = get_str (user_attributes ''given_name'') ''Friend'' in
      case request_code_parameter ev of
        Inl x \<Rightarrow> (Some x, ev)
      | Inr code_parameter \<Rightarrow>
          set_email ''InnerWorld - Your New Verification Code''
            (Email ResendCode (Some given_name) code_parameter) ev)"

definition customize_forgot_password_message :: "event \<Rightarrow> attributes \<Rightarrow> exn option \<times> event" where
  "customize_forgot_password_message ev user_attributes =
     (let given_name = get_str (user_attributes ''given_name'') ''Friend'' in
      case request_code_parameter ev of
        Inl x \<Rightarrow> (Some x, ev)
      | Inr code_parameter \<Rightarrow>
          set_email ''InnerWorld - Reset Your Password''
            (Email ForgotPassword (Some given_name) code_parameter) ev)"

definition customize_update_attribute_message :: "event \<Rightarrow> attributes \<Rightarrow> exn option \<times> event" where
  "customize_update_attribute_message ev user_attributes =
     (case request_code_parameter ev of
        Inl x \<Rightarrow> (Some x, ev)
      | Inr code_parameter \<Rightarrow>
          set_email ''InnerWorld - Verify Your Email Change''
            (Email UpdateUserAttribute None code_parameter) ev)"

definition customize_verify_attribute_message :: "event \<Rightarrow> attributes \<Rightarrow> exn option \<times> event" where
  "customize_verify_attribute_message ev user_attributes =
     (case request_code_parameter ev of
        Inl x \<Rightarrow> (Some x, ev)
      | Inr code_parameter \<Rightarrow>
          set_email ''InnerWorld - Verify Your Information''
            (Email VerifyUserAttribute None code_parameter) ev)"

definition customize_authentication_message :: "event \<Rightarrow> attributes \<Rightarrow> exn option \<times> event" where
  "customize_authentication_message ev user_attributes =
     (case request_code_parameter ev of
        Inl x \<Rightarrow> (Some x, ev)
      | Inr code_parameter \<Rightarrow>
          set_email ''InnerWorld - Your Login Code''
            (Email Authentication None code_parameter) ev)"

definition custom_message_try :: "event \<Rightarrow> exn option \<times> event" where
  \<comment> \<open>lines 26 to 48: the body of the \<open>try\<close>\<close>
  "custom_message_try ev =
     (let user_attributes = get_user_attributes ev;
          trigger_source = get_str (triggerSource ev) []
      in if trigger_source = ''CustomMessage_SignUp'' then
           customize_signup_message ev user_attributes
         else if trigger_source = ''CustomMessage_ResendCode'' then
           customize_resend_code_message ev user_attributes
         else if trigger_source = ''CustomMessage_ForgotPassword'' then
           customize_forgot_password_message ev user_attributes
         else if trigger_source = ''CustomMessage_UpdateUserAttribute'' then
           customize_update_attribute_message ev user_attributes
         else if trigger_source = ''CustomMessage_VerifyUserAttribute'' then
           customize_verify_attribute_message ev user_attributes
         else if trigger_source = ''CustomMessage_Authentication'' then
           customize_authentication_message ev user_attributes
         else (None, ev))"

definition custom_message_handler :: "event \<Rightarrow> exn + event" where
  \<comment> \<open>both the \<open>try\<close> and the \<open>except\<close> end in \<open>return event\<close>: the event object as
      it is at that moment\<close>
  "custom_message_handler ev =
     (case custom_message_try ev of
        (None, ev1) \<Rightarrow> Inr ev1
      | (Some x, ev1) \<Rightarrow> Inr ev1)"

subsection \<open>post\_confirmation.py\<close>

definition initialize_user_profile ::
  "services \<Rightarrow> string \<Rightarrow> attributes \<Rightarrow> writes \<Rightarrow> exn option \<times> writes" where
  \<comment> \<open>the \<open>except\<close> logs and does not raise\<close>
  "initialize_user_profile sv user_id user_attributes ws =
     (case table_write sv (table_name sv ''-user-profiles'') user_id ws of
        (Some x, ws1) \<Rightarrow> (None, ws1)
      | (None, ws1) \<Rightarrow> (None, ws1))"

definition initialize_graph_context :: "string \<Rightarrow> attributes \<Rightarrow> writes \<Rightarrow> exn option \<times> writes" where
  "initialize_graph_context user_id user_attributes ws = (None, ws)"

definition send_welcome_notification :: "string \<Rightarrow> attributes \<Rightarrow> writes \<Rightarrow> exn option \<times> writes" where
  "send_welcome_notification email user_attributes ws = (None, ws)"

definition post_confirmation_handler :: "services \<Rightarrow> event \<Rightarrow> writes \<Rightarrow> (exn + event) \<times> writes" where
  "post_confirmation_handler sv ev ws =
     (let user_id = get_str (userName ev) [];
          user_attributes = get_user_attributes ev;
          email = get_str (user_attributes ''email'') []
      in case initialize_user_profile sv user_id user_attributes ws of
           (Some x, ws1) \<Rightarrow> (Inr ev, ws1)
         | (None, ws1) \<Rightarrow>
             (case initialize_graph_context user_id user_attributes ws1 of
                (Some x, ws2) \<Rightarrow> (Inr ev, ws2)
              | (None, ws2) \<Rightarrow>
                  (case send_welcome_notification email user_attributes ws2 of
                     (Some x, ws3) \<Rightarrow> (Inr ev, ws3)
                   | (None, ws3) \<Rightarrow> (Inr ev, ws3))))"

subsection \<open>post\_authentication.py\<close>

definition update_user_login_info ::
  "services \<Rightarrow> string \<Rightarrow> string \<Rightarrow> writes \<Rightarrow> exn option \<times> writes" where
  "update_user_login_info sv user_id trigger_source ws =
     (case table_write sv (table_name sv ''-user-profiles'') user_id ws of
        (Some x, ws1) \<Rightarrow> (None, ws1)
      | (None, ws1) \<Rightarrow> (None, ws1))"

definition cache_user_context ::
  "services \<Rightarrow> string \<Rightarrow> attributes \<Rightarrow> writes \<Rightarrow> exn option \<times> writes" where
  "cache_user_context sv user_id user_attributes ws =
     (case table_write sv (table_name sv ''-user-cache'') user_id ws of
        (Some x, ws1) \<Rightarrow> (None, ws1)
      | (None, ws1) \<Rightarrow> (None, ws1))"

definition update_session_metrics :: "services \<Rightarrow> string \<Rightarrow> writes \<Rightarrow> exn option \<times> writes" where
  "update_session_metrics sv user_id ws =
     (case table_write sv (table_name sv ''-session-metrics'') user_id ws of
        (Some x, ws1) \<Rightarrow> (None, ws1)
      | (None, ws1) \<Rightarrow> (None, ws1))"

definition post_authentication_handler ::
  "services \<Rightarrow> event \<Rightarrow> writes \<Rightarrow> (exn + event) \<times> writes" where
  "post_authentication_handler sv ev ws =
     (let user_id = get_str (userName ev) [];
          user_attributes = get_user_attributes ev;
          trigger_source = get_str (triggerSource ev) []
      in case update_user_login_info sv user_id trigger_source ws of
           (Some x, ws1) \<Rightarrow> (Inr ev, ws1)
         | (None, ws1) \<Rightarrow>
             (case cache_user_context sv user_id user_attributes ws1 of
                (Some x, ws2) \<Rightarrow> (Inr ev, ws2)
              | (None, ws2) \<Rightarrow>
                  (case update_session_metrics sv user_id ws2 of
                     (Some x, ws3) \<Rightarrow> (Inr ev, ws3)
                   | (None, ws3) \<Rightarrow> (Inr ev, ws3))))"

subsection \<open>pre\_signup.py\<close>

definition validate_age :: "services \<Rightarrow> string \<Rightarrow> bool" where
  "validate_age sv birthdate =
     (case strptime sv birthdate of
        None \<Rightarrow> False
      | Some (birth_year, birth_month, birth_day) \<Rightarrow>
          (case today sv of (year, month, day) \<Rightarrow>
             (let age = int year - int birth_year
                        - (if month < birth_month \<or> (month = birth_month \<and> day < birth_day)
                           then 1 else 0)
              in age \<ge> 13)))"

definition default_preferences :: string where
  \<open>default_preferences =
     ''{"personas_enabled": ["courage", "comfort", "creative", "compass"], ''
     @ ''"session_reminders": true, "data_retention_days": 30, "privacy_mode": "standard"}''\<close>

definition pre_signup_handler :: "services \<Rightarrow> event \<Rightarrow> exn + event" where
  \<comment> \<open>the \<open>except\<close> raises the exception again. \<open>event['response']['userAttributes']\<close>
      is made the same dictionary as \<open>event['request']['userAttributes']\<close>, so the
      defaults set through the one show in the other.\<close>
  "pre_signup_handler sv ev =
     (let user_attributes = get_user_attributes ev in
      case (case user_attributes ''birthdate'' of
              None \<Rightarrow> Inr ()
            | Some birthdate \<Rightarrow>
                if birthdate \<noteq> [] \<and> \<not> validate_age sv birthdate
                then Inl (ValueError ''Users must be 13 years or older to register'')
                else Inr ()) of
        Inl x \<Rightarrow> Inl x
      | Inr _ \<Rightarrow>
          (case (if triggerSource ev = Some ''PreSignUp_ExternalProvider'' then
                   (case response ev of
                      None \<Rightarrow> Inl (KeyError ''response'')
                    | Some rs \<Rightarrow>
                        Inr (ev\<lparr>response := Some (rs\<lparr>autoConfirmUser := Some True,
                                                        autoVerifyEmail := Some True\<rparr>)\<rparr>))
                 else Inr ev) of
             Inl x \<Rightarrow> Inl x
           | Inr ev1 \<Rightarrow>
               (case request ev1 of
                  None \<Rightarrow> Inl (KeyError ''request'')
                | Some rq \<Rightarrow>
                    (case userAttributes rq of
                       None \<Rightarrow> Inl (KeyError ''userAttributes'')
                     | Some ua \<Rightarrow>
                         (case response ev1 of
                            None \<Rightarrow> Inl (KeyError ''response'')
                          | Some rs \<Rightarrow>
                              (let ua1 = (if ua ''custom:consent_version'' = None
                                          then ua(''custom:consent_version'' \<mapsto> ''1.0'')
                                          else ua);
                                   ua2 = (if ua1 ''custom:user_preferences'' = None
                                          then ua1(''custom:user_preferences'' \<mapsto>
                                                     default_preferences)
                                          else ua1)
                               in Inr (ev1\<lparr>request := Some (rq\<lparr>userAttributes := Some ua2\<rparr>),
                                           response :=
                                             Some (rs\<lparr>responseAttributes := Some ua2\<rparr>)\<rparr>)))))))"

subsection \<open>pre\_authentication.py\<close>

definition validate_user_status :: "string \<Rightarrow> attributes \<Rightarrow> bool" where
  "validate_user_status user_id user_attributes =
     (let email = get_str (user_attributes ''email'') [] in
      if email = [] then False else True)"

definition pre_authentication_handler :: "event \<Rightarrow> exn + event" where
  \<comment> \<open>\<open>log_authentication_attempt\<close> only logs and swallows its own failures; the
      \<open>except\<close> raises the exception again\<close>
  "pre_authentication_handler ev =
     (let user_id = get_str (userName ev) [];
          user_attributes = get_user_attributes ev
      in if \<not> validate_user_status user_id user_attributes then
           Inl (ValueError ''Account access has been restricted. Please contact support.'')
         else Inr ev)"

subsection \<open>Some concrete events\<close>

definition signup_without_code :: event where
  "signup_without_code =
     \<lparr>userName = Some ''ada'', triggerSource = Some ''CustomMessage_SignUp'',
      request = Some \<lparr>userAttributes = Some [''given_name'' \<mapsto> ''Ada''], codeParameter = None\<rparr>,
      response = Some \<lparr>emailSubject = None, emailMessage = None, autoConfirmUser = None,
                       autoVerifyEmail = None, responseAttributes = None\<rparr>\<rparr>"

definition child_signup :: event where
  "child_signup =
     \<lparr>userName = Some ''kid'', triggerSource = Some ''PreSignUp_SignUp'',
      request = Some \<lparr>userAttributes = Some [''email'' \<mapsto> ''kid@example.org'',
                                              ''birthdate'' \<mapsto> ''2020-06-15''],
                      codeParameter = None\<rparr>,
      response = Some \<lparr>emailSubject = None, emailMessage = None, autoConfirmUser = None,
                       autoVerifyEmail = None, responseAttributes = None\<rparr>\<rparr>"

definition login_without_email :: event where
  "login_without_email =
     \<lparr>userName = Some ''ghost'', triggerSource = Some ''PreAuthentication_Authentication'',
      request = Some \<lparr>userAttributes = Some Map.empty, codeParameter = None\<rparr>,
      response = None\<rparr>"

definition failing_tables :: services where
  "failing_tables =
     \<lparr>project_name = None,
      table_error = (\<lambda>t. Some (ServiceError ''ProvisionedThroughputExceededException'')),
      today = (2024, 5, 1),
      strptime = (\<lambda>s. if s = ''2020-06-15'' then Some (2020, 6, 15) else None)\<rparr>"

section \<open>Properties of the rotation steps\<close>

subsection \<open>Store calls\<close>

lemma logged_secrets [simp]: "secrets (logged c w) = secrets w"
  by (simp add: logged_def)

lemma logged_drawn [simp]: "drawn (logged c w) = drawn w"
  by (simp add: logged_def)

lemma logged_calls [simp]: "calls (logged c w) = calls w @ [c]"
  by (simp add: logged_def)

lemma get_secret_value_world: "snd (get_secret_value sid l w) = logged (GetSecretValue sid l) w"
  by (simp add: get_secret_value_def Let_def split: option.splits list.splits)

lemma get_current:
  assumes "secrets w sid = Some vs" and "holders CURRENT vs = c # cs"
  shows "get_secret_value sid None w = (Inr c, logged (GetSecretValue sid None) w)"
  using assms by (simp add: get_secret_value_def)

lemma get_pending:
  assumes "secrets w sid = Some vs" and "holders PENDING vs = p # ps"
  shows "get_secret_value sid (Some PENDING) w =
           (Inr p, logged (GetSecretValue sid (Some PENDING)) w)"
  using assms by (simp add: get_secret_value_def)

subsection \<open>finishSecret\<close>

text \<open>
  The label \<open>AWSPENDING\<close> is not the identifier of a version, so the lookup of line 160
  misses: \<open>finish_secret\<close> calls \<open>update_secret_version_stage\<close> without a version to
  move the label to, the call raises, and the content of the store is as it was.
\<close>

lemma finish_secret_lookup_misses:
  assumes "secrets w sid = Some vs" and "''AWSPENDING'' \<notin> set (map version_id vs)"
  shows "finish_secret sid w =
           (Inl (InvalidParameter ''MoveToVersionId''),
            logged (UpdateSecretVersionStage sid CURRENT None) (logged (DescribeSecret sid) w))"
proof -
  have "''AWSPENDING'' \<notin> version_id ` set vs"
    using assms(2) by simp
  then have "\<not> (\<exists>v. v \<in> set vs \<and> version_id v = ''AWSPENDING'')"
    by (metis imageI)
  then have "List.find (\<lambda>v. version_id v = ''AWSPENDING'') vs = None"
    by (simp add: find_None_iff)
  then show ?thesis
    using assms(1)
    by (simp add: finish_secret_def describe_secret_def pending_version_id_def
        update_secret_version_stage_def Let_def)
qed

text \<open>
  C1 says that \<open>finishSecret\<close> completes by promoting the PENDING version: one
  CURRENT version with the former PENDING value, PREVIOUS on the former CURRENT value,
  no PENDING left. On the secret with the version \<open>v1\<close> labelled CURRENT and the version
  \<open>v2\<close> labelled PENDING the code does not complete: it raises, no label moves
  (\<open>v1\<close> is still the one CURRENT version, \<open>v2\<close> still PENDING, nothing PREVIOUS), and
  the handler answers with status 500.
\<close>

theorem finish_secret_moves_nothing:
  "secrets rotating_world ''arn:db'' = Some [old_password, candidate_password] \<and>
   holders CURRENT [old_password, candidate_password] = [old_password] \<and>
   holders PENDING [old_password, candidate_password] = [candidate_password] \<and>
   holders PREVIOUS [old_password, candidate_password] = [] \<and>
   fst (finish_secret ''arn:db'' rotating_world) = Inl (InvalidParameter ''MoveToVersionId'') \<and>
   secrets (snd (finish_secret ''arn:db'' rotating_world)) = secrets rotating_world \<and>
   calls (snd (finish_secret ''arn:db'' rotating_world)) =
     [DescribeSecret ''arn:db'', UpdateSecretVersionStage ''arn:db'' CURRENT None] \<and>
   handler counting_env \<lparr>SecretId = Some ''arn:db'', Step = Some ''finishSecret''\<rparr>
       rotating_world =
     (\<lparr>statusCode = 500, body = Error ''InvalidParameter: MoveToVersionId'' ''arn:db''\<rparr>,
      snd (finish_secret ''arn:db'' rotating_world))"
proof -
  have h1: "secrets rotating_world ''arn:db'' = Some [old_password, candidate_password]"
    by (simp add: rotating_world_def)
  have h2: "''AWSPENDING'' \<notin> set (map version_id [old_password, candidate_password])"
    by (simp add: old_password_def candidate_password_def)
  have c: "holders CURRENT [old_password, candidate_password] = [old_password]"
    by (simp add: holders_def old_password_def candidate_password_def)
  have p: "holders PENDING [old_password, candidate_password] = [candidate_password]"
    by (simp add: holders_def old_password_def candidate_password_def)
  have q: "holders PREVIOUS [old_password, candidate_password] = []"
    by (simp add: holders_def old_password_def candidate_password_def)
  note f = finish_secret_lookup_misses [OF h1 h2]
  have r: "fst (finish_secret ''arn:db'' rotating_world) =
             Inl (InvalidParameter ''MoveToVersionId'')"
    by (simp add: f)
  have s: "secrets (snd (finish_secret ''arn:db'' rotating_world)) = secrets rotating_world"
    by (simp add: f)
  have "calls (snd (finish_secret ''arn:db'' rotating_world)) =
     calls rotating_world @
       [DescribeSecret ''arn:db'', UpdateSecretVersionStage ''arn:db'' CURRENT None]"
    by (simp add: f)
  moreover have "calls rotating_world = []"
    by (simp add: rotating_world_def)
  ultimately have l: "calls (snd (finish_secret ''arn:db'' rotating_world)) =
     [DescribeSecret ''arn:db'', UpdateSecretVersionStage ''arn:db'' CURRENT None]"
    by simp
  have h: "handler counting_env \<lparr>SecretId = Some ''arn:db'', Step = Some ''finishSecret''\<rparr>
       rotating_world =
     (\<lparr>statusCode = 500, body = Error ''InvalidParameter: MoveToVersionId'' ''arn:db''\<rparr>,
      snd (finish_secret ''arn:db'' rotating_world))"
    by (simp add: handler_def run_step_def failure_def f)
  show ?thesis using h1 c p q r s l h by blast
qed

subsection \<open>testSecret\<close>

text \<open>
  C7. \<open>test_secret\<close> never modifies the Secret Store: whatever the secret and its
  PENDING value, and whether the validation passes or raises, every version, value and
  stage label is afterwards as it was before (and nothing is generated). The only trace
  of the call is the read recorded in the call list.
\<close>

theorem test_secret_frame:
  "secrets (snd (test_secret sid w)) = secrets w \<and>
   drawn (snd (test_secret sid w)) = drawn w \<and>
   calls (snd (test_secret sid w)) = calls w @ [GetSecretValue sid (Some PENDING)]"
  using get_secret_value_world [of sid "Some PENDING" w]
  by (cases "get_secret_value sid (Some PENDING) w")
     (auto simp: test_secret_def Let_def split: sum.splits option.splits)

subsection \<open>The handler\<close>

text \<open>
  C8. An event whose Step is none of \<open>createSecret\<close>, \<open>setSecret\<close>, \<open>testSecret\<close>,
  \<open>finishSecret\<close> is answered with the failure "Unknown step", and an event without a
  SecretId with the failure "SecretId not provided in event"; in both cases the world is
  returned as it was, so no call to the Secret Store has been made.
\<close>

theorem handler_rejects:
  "(step \<notin> {''createSecret'', ''setSecret'', ''testSecret'', ''finishSecret''} \<and> sid \<noteq> [] \<longrightarrow>
      handler e \<lparr>SecretId = Some sid, Step = Some step\<rparr> w =
        (\<lparr>statusCode = 500, body = Error (''Unknown step: '' @ step) sid\<rparr>, w)) \<and>
   handler e \<lparr>SecretId = None, Step = st\<rparr> w =
        (\<lparr>statusCode = 500, body = Error ''SecretId not provided in event'' ''unknown''\<rparr>, w)"
  by (simp add: handler_def run_step_def failure_def)

theorem handler_rejects_witness:
  "''deleteSecret'' \<notin> {''createSecret'', ''setSecret'', ''testSecret'', ''finishSecret''} \<and>
   ''arn:db'' \<noteq> [] \<and>
   handler counting_env \<lparr>SecretId = Some ''arn:db'', Step = Some ''deleteSecret''\<rparr>
       rotating_world =
     (\<lparr>statusCode = 500, body = Error ''Unknown step: deleteSecret'' ''arn:db''\<rparr>,
      rotating_world) \<and>
   handler counting_env \<lparr>SecretId = None, Step = Some ''finishSecret''\<rparr> rotating_world =
     (\<lparr>statusCode = 500, body = Error ''SecretId not provided in event'' ''unknown''\<rparr>,
      rotating_world)"
  using handler_rejects [of "''deleteSecret''" "''arn:db''" counting_env rotating_world
      "Some ''finishSecret''"]
  by simp

text \<open>
  C10. An event with a SecretId and no Step is not rejected: the handler answers it
  exactly as it answers the same event with Step \<open>createSecret\<close>, and that answer is the
  outcome of \<open>create_secret\<close> on the secret.
\<close>

theorem handler_default_step:
  "handler e \<lparr>SecretId = sid, Step = None\<rparr> w =
     handler e \<lparr>SecretId = sid, Step = Some ''createSecret''\<rparr> w \<and>
   (arn \<noteq> [] \<longrightarrow>
      handler e \<lparr>SecretId = Some arn, Step = None\<rparr> w =
        (case create_secret e arn w of
           (Inl x, w1) \<Rightarrow> (\<lparr>statusCode = 500, body = Error (str_exn x) arn\<rparr>, w1)
         | (Inr _, w1) \<Rightarrow>
             (\<lparr>statusCode = 200,
               body = Message ''Successfully completed createSecret for secret rotation'' arn\<rparr>,
              w1)))"
  by (simp add: handler_def run_step_def failure_def Let_def
      split: option.splits prod.splits sum.splits)

theorem handler_default_step_witness:
  "''arn:vendor'' \<noteq> [] \<and>
   handler counting_env \<lparr>SecretId = Some ''arn:vendor'', Step = None\<rparr> vendor_world =
     handler counting_env \<lparr>SecretId = Some ''arn:vendor'', Step = Some ''createSecret''\<rparr>
       vendor_world \<and>
   handler counting_env \<lparr>SecretId = Some ''arn:vendor'', Step = None\<rparr> vendor_world =
     (\<lparr>statusCode = 200,
       body = Message ''Successfully completed createSecret for secret rotation''
                ''arn:vendor''\<rparr>,
      logged (GetSecretValue ''arn:vendor'' None) vendor_world)"
proof -
  have "create_secret counting_env ''arn:vendor'' vendor_world =
          (Inr (), logged (GetSecretValue ''arn:vendor'' None) vendor_world)"
    by (simp add: create_secret_def get_secret_value_def holders_def vendor_world_def
        vendor_current_def vendor_pending_def Let_def)
  note created = this
  note t = handler_default_step [of counting_env "Some ''arn:vendor''" vendor_world
      "''arn:vendor''"]
  have a: "handler counting_env \<lparr>SecretId = Some ''arn:vendor'', Step = None\<rparr> vendor_world =
     handler counting_env \<lparr>SecretId = Some ''arn:vendor'', Step = Some ''createSecret''\<rparr>
       vendor_world"
    using t by blast
  have b: "handler counting_env \<lparr>SecretId = Some ''arn:vendor'', Step = None\<rparr> vendor_world =
     (\<lparr>statusCode = 200,
       body = Message ''Successfully completed createSecret for secret rotation''
                ''arn:vendor''\<rparr>,
      logged (GetSecretValue ''arn:vendor'' None) vendor_world)"
    using conjunct2 [OF t] created by simp
  have c: "''arn:vendor'' \<noteq> []" by simp
  show ?thesis using a b c by blast
qed

subsection \<open>createSecret\<close>

text \<open>
  Generating draws one value of the random source for each character, and every
  character comes from the sequence it is chosen from.
\<close>

lemma choices_shape:
  "seq \<noteq> [] \<Longrightarrow>
     length (fst (choices e seq n w)) = n \<and> set (fst (choices e seq n w)) \<subseteq> set seq"
proof (induction n arbitrary: w)
  case 0
  show ?case by simp
next
  case (Suc n)
  have "rng e (drawn w) mod length seq < length seq" using Suc.prems by simp
  then have "seq ! (rng e (drawn w) mod length seq) \<in> set seq" by (rule nth_mem)
  then show ?case
    using Suc.IH [OF Suc.prems, of "w\<lparr>drawn := Suc (drawn w)\<rparr>"]
    by (auto simp add: secrets_choice_def split: prod.splits)
qed

lemma choices_world:
  "snd (choices e seq n w) = w\<lparr>drawn := drawn w + n\<rparr>"
proof (induction n arbitrary: w)
  case 0
  show ?case by simp
next
  case (Suc n)
  have "snd (choices e seq n (w\<lparr>drawn := Suc (drawn w)\<rparr>)) =
        (w\<lparr>drawn := Suc (drawn w)\<rparr>)\<lparr>drawn := drawn (w\<lparr>drawn := Suc (drawn w)\<rparr>) + n\<rparr>"
    by (rule Suc.IH)
  then show ?case
    by (auto simp add: secrets_choice_def split: prod.splits)
qed

text \<open>
  Line 107 reads the name \<open>datetime\<close>, which rotate\_secrets.py binds nowhere: the two
  generating branches of \<open>create_secret\<close> raise \<open>NameError\<close> before they reach
  \<open>put_secret_value\<close>.
\<close>

lemma datetime_unbound: "datetime_utcnow_isoformat e = Inl (NameError ''datetime'')"
  by (simp add: datetime_utcnow_isoformat_def module_names_def create_secret_names_def)

lemma create_secret_manual:
  assumes "secrets w sid = Some vs" and "holders CURRENT vs = c # cs"
    and "secret_string c ''api_key'' \<noteq> None"
  shows "create_secret e sid w = (Inr (), logged (GetSecretValue sid None) w)"
  using assms(3) by (auto simp add: create_secret_def Let_def get_current [OF assms(1,2)])

lemma create_secret_unknown:
  assumes "secrets w sid = Some vs" and "holders CURRENT vs = c # cs"
    and "secret_string c ''password'' = None" and "secret_string c ''key'' = None"
  shows "create_secret e sid w = (Inr (), logged (GetSecretValue sid None) w)"
  using assms(3,4) by (auto simp add: create_secret_def Let_def get_current [OF assms(1,2)])

lemma create_secret_password:
  assumes "secrets w sid = Some vs" and "holders CURRENT vs = c # cs"
    and "secret_string c ''api_key'' = None" and "secret_string c ''password'' \<noteq> None"
  shows "create_secret e sid w =
           (Inl (NameError ''datetime''), (logged (GetSecretValue sid None) w)
              \<lparr>drawn := drawn w + 32\<rparr>)"
proof -
  obtain pw w2 where ch: "choices e alphabet 32 (logged (GetSecretValue sid None) w) = (pw, w2)"
    by (cases "choices e alphabet 32 (logged (GetSecretValue sid None) w)")
  have "w2 = snd (choices e alphabet 32 (logged (GetSecretValue sid None) w))"
    by (simp add: ch)
  then have w2: "w2 = (logged (GetSecretValue sid None) w)\<lparr>drawn := drawn w + 32\<rparr>"
    by (simp add: choices_world)
  show ?thesis
    using assms(3,4) w2
    by (auto simp add: create_secret_def Let_def get_current [OF assms(1,2)] ch datetime_unbound)
qed

lemma create_secret_key:
  assumes "secrets w sid = Some vs" and "holders CURRENT vs = c # cs"
    and "secret_string c ''api_key'' = None" and "secret_string c ''password'' = None"
    and "secret_string c ''key'' \<noteq> None"
  shows "create_secret e sid w =
           (Inl (NameError ''datetime''), (logged (GetSecretValue sid None) w)
              \<lparr>drawn := drawn w + 32\<rparr>)"
  using assms(3,4,5)
  by (auto simp add: create_secret_def Let_def get_current [OF assms(1,2)] datetime_unbound
      token_urlsafe_def)

lemma create_secret_secrets: "secrets (snd (create_secret e sid w)) = secrets w"
proof (cases "secrets w sid")
  case None
  then show ?thesis by (simp add: create_secret_def get_secret_value_def)
next
  case (Some vs)
  show ?thesis
  proof (cases "holders CURRENT vs")
    case Nil
    with Some show ?thesis by (simp add: create_secret_def get_secret_value_def)
  next
    case (Cons c cs)
    note cur = create_secret_manual [OF Some Cons] create_secret_unknown [OF Some Cons]
      create_secret_password [OF Some Cons] create_secret_key [OF Some Cons]
    show ?thesis
    proof (cases "secret_string c ''api_key'' = None")
      case False
      then show ?thesis by (simp add: cur(1))
    next
      case True
      show ?thesis
      proof (cases "secret_string c ''password'' = None")
        case False
        with True show ?thesis by (simp add: cur(3))
      next
        case pw: True
        show ?thesis
        proof (cases "secret_string c ''key'' = None")
          case False
          with True pw show ?thesis by (simp add: cur(4))
        next
          case k: True
          with pw show ?thesis by (simp add: cur(2))
        qed
      qed
    qed
  qed
qed

subsection \<open>What testSecret validates\<close>

lemma test_secret_secrets: "secrets (snd (test_secret sid w)) = secrets w"
  using get_secret_value_world [of sid "Some PENDING" w]
  by (cases "get_secret_value sid (Some PENDING) w")
     (auto simp: test_secret_def Let_def split: sum.splits option.splits)

text \<open>
  C5, as amended. For a secret with a PENDING version, \<open>test_secret\<close> raises exactly
  when that value has a \<open>password\<close> field shorter than 8 characters or, having no
  \<open>password\<close> field, has a \<open>key\<close> field shorter than 16 characters; it passes
  otherwise. An \<open>api_key\<close> field plays no part in the validation. On values without an
  \<open>api_key\<close> field this is the validation rule of the specification.
\<close>

theorem test_secret_validation:
  assumes "secrets w sid = Some vs" and "holders PENDING vs = p # ps"
  shows "(isl (fst (test_secret sid w)) \<longleftrightarrow>
            (\<exists>password. secret_string p ''password'' = Some password \<and> length password < 8) \<or>
            (secret_string p ''password'' = None \<and>
             (\<exists>key. secret_string p ''key'' = Some key \<and> length key < 16))) \<and>
         (isl (fst (test_secret sid w)) \<longrightarrow>
            fst (test_secret sid w) \<in>
              {Inl (ValueError ''Password too short''), Inl (ValueError ''Key too short'')}) \<and>
         secrets (snd (test_secret sid w)) = secrets w \<and>
         (secret_string p ''api_key'' = None \<longrightarrow>
            (isl (fst (test_secret sid w)) \<longleftrightarrow> spec_validation_fails (secret_string p)))"
proof -
  have t: "fst (test_secret sid w) =
           (case secret_string p ''password'' of
              Some password \<Rightarrow>
                if length password < 8 then Inl (ValueError ''Password too short'') else Inr ()
            | None \<Rightarrow>
                (case secret_string p ''key'' of
                   Some key \<Rightarrow>
                     if length key < 16 then Inl (ValueError ''Key too short'') else Inr ()
                 | None \<Rightarrow> Inr ()))"
    by (simp add: test_secret_def get_pending [OF assms] Let_def split: option.splits)
  have s: "secrets (snd (test_secret sid w)) = secrets w"
    by (rule test_secret_secrets)
  show ?thesis
    unfolding t using s
    by (simp add: spec_validation_fails_def spec_classify_def split: option.splits)
qed

theorem test_secret_validation_witness:
  "secrets vendor_world ''arn:vendor'' = Some [vendor_current, vendor_pending] \<and>
   holders PENDING [vendor_current, vendor_pending] = [vendor_pending] \<and>
   fst (test_secret ''arn:vendor'' vendor_world) = Inl (ValueError ''Password too short'') \<and>
   secrets rotating_world ''arn:db'' = Some [old_password, candidate_password] \<and>
   holders PENDING [old_password, candidate_password] = [candidate_password] \<and>
   secret_string candidate_password ''api_key'' = None \<and>
   fst (test_secret ''arn:db'' rotating_world) = Inr () \<and>
   \<not> spec_validation_fails (secret_string candidate_password)"
proof -
  have h1: "secrets vendor_world ''arn:vendor'' = Some [vendor_current, vendor_pending]"
    by (simp add: vendor_world_def)
  have h2: "holders PENDING [vendor_current, vendor_pending] = [vendor_pending]"
    by (simp add: holders_def vendor_current_def vendor_pending_def)
  have h3: "secrets rotating_world ''arn:db'' = Some [old_password, candidate_password]"
    by (simp add: rotating_world_def)
  have h4: "holders PENDING [old_password, candidate_password] = [candidate_password]"
    by (simp add: holders_def old_password_def candidate_password_def)
  have h5: "secret_string candidate_password ''api_key'' = None"
    by (simp add: candidate_password_def)
  have "isl (fst (test_secret ''arn:vendor'' vendor_world))"
    using test_secret_validation [OF h1 h2] by (simp add: vendor_pending_def)
  moreover have "fst (test_secret ''arn:vendor'' vendor_world) \<noteq> Inl (ValueError ''Key too short'')"
    by (simp add: test_secret_def get_pending [OF h1 h2] vendor_pending_def)
  ultimately have a:
    "fst (test_secret ''arn:vendor'' vendor_world) = Inl (ValueError ''Password too short'')"
    using test_secret_validation [OF h1 h2] by blast
  have "\<not> isl (fst (test_secret ''arn:db'' rotating_world))"
    using test_secret_validation [OF h3 h4] by (simp add: candidate_password_def)
  then have b: "fst (test_secret ''arn:db'' rotating_world) = Inr ()"
    by (cases "fst (test_secret ''arn:db'' rotating_world)") simp_all
  have c: "\<not> spec_validation_fails (secret_string candidate_password)"
    using test_secret_validation [OF h3 h4] h5 b by simp
  show ?thesis using h1 h2 h3 h4 h5 a b c by blast
qed

text \<open>
  C5, as stated, fails: a PENDING value with an \<open>api_key\<close> field is classified as
  manual and should pass, but with a \<open>password\<close> of five characters beside it
  \<open>test_secret\<close> raises.
\<close>

theorem test_secret_api_key_counterexample:
  "secrets vendor_world ''arn:vendor'' = Some [vendor_current, vendor_pending] \<and>
   holders PENDING [vendor_current, vendor_pending] = [vendor_pending] \<and>
   spec_classify (secret_string vendor_pending) = ApiKey \<and>
   \<not> spec_validation_fails (secret_string vendor_pending) \<and>
   fst (test_secret ''arn:vendor'' vendor_world) = Inl (ValueError ''Password too short'')"
  by (simp add: vendor_world_def holders_def vendor_current_def vendor_pending_def
      spec_classify_def spec_validation_fails_def test_secret_def get_secret_value_def)

subsection \<open>What createSecret does\<close>

text \<open>
  C6. For a secret whose CURRENT value has an \<open>api_key\<close> field, whatever other fields
  it has, \<open>create_secret\<close> returns success, generates nothing, and leaves every
  version and label as it was; its only call to the store is the read of CURRENT.
\<close>

theorem create_secret_api_key:
  assumes "secrets w sid = Some vs" and "holders CURRENT vs = c # cs"
    and "secret_string c ''api_key'' \<noteq> None"
  shows "fst (create_secret e sid w) = Inr () \<and>
         secrets (snd (create_secret e sid w)) = secrets w \<and>
         drawn (snd (create_secret e sid w)) = drawn w \<and>
         calls (snd (create_secret e sid w)) = calls w @ [GetSecretValue sid None]"
  by (simp add: create_secret_manual [OF assms])

theorem create_secret_api_key_witness:
  "secrets vendor_world ''arn:vendor'' = Some [vendor_current, vendor_pending] \<and>
   holders CURRENT [vendor_current, vendor_pending] = [vendor_current] \<and>
   secret_string vendor_current ''api_key'' \<noteq> None \<and>
   secret_string vendor_current ''password'' \<noteq> None \<and>
   fst (create_secret counting_env ''arn:vendor'' vendor_world) = Inr () \<and>
   secrets (snd (create_secret counting_env ''arn:vendor'' vendor_world)) =
     secrets vendor_world \<and>
   drawn (snd (create_secret counting_env ''arn:vendor'' vendor_world)) = drawn vendor_world \<and>
   calls (snd (create_secret counting_env ''arn:vendor'' vendor_world)) =
     calls vendor_world @ [GetSecretValue ''arn:vendor'' None]"
proof -
  have h1: "secrets vendor_world ''arn:vendor'' = Some [vendor_current, vendor_pending]"
    by (simp add: vendor_world_def)
  have h2: "holders CURRENT [vendor_current, vendor_pending] = [vendor_current]"
    by (simp add: holders_def vendor_current_def vendor_pending_def)
  have h3: "secret_string vendor_current ''api_key'' \<noteq> None"
    by (simp add: vendor_current_def)
  have h4: "secret_string vendor_current ''password'' \<noteq> None"
    by (simp add: vendor_current_def)
  show ?thesis
    using create_secret_api_key [OF h1 h2 h3, of counting_env] h1 h2 h3 h4 by blast
qed

text \<open>
  C2, as amended. \<open>create_secret\<close> does not look for a PENDING version. For a secret
  whose CURRENT value has an \<open>api_key\<close> field, or has neither a \<open>password\<close> nor a
  \<open>key\<close> field, two successive calls both return success, generate nothing, and leave
  every version and label (an existing PENDING version among them) as it was; each call
  reads CURRENT once and makes no other call to the store.
\<close>

theorem create_secret_twice:
  assumes "secrets w sid = Some vs" and "holders CURRENT vs = c # cs"
    and "secret_string c ''api_key'' \<noteq> None \<or>
         (secret_string c ''password'' = None \<and> secret_string c ''key'' = None)"
  shows "\<exists>w1 w2. create_secret e sid w = (Inr (), w1) \<and>
           create_secret e sid w1 = (Inr (), w2) \<and>
           secrets w2 = secrets w \<and> drawn w2 = drawn w \<and>
           calls w2 = calls w @ [GetSecretValue sid None, GetSecretValue sid None]"
proof -
  let ?w1 = "logged (GetSecretValue sid None) w"
  have first: "create_secret e sid w = (Inr (), ?w1)"
    using assms(3) create_secret_manual [OF assms(1,2)] create_secret_unknown [OF assms(1,2)]
    by blast
  have s1: "secrets ?w1 sid = Some vs" using assms(1) by simp
  have second: "create_secret e sid ?w1 = (Inr (), logged (GetSecretValue sid None) ?w1)"
    using assms(3) create_secret_manual [OF s1 assms(2)] create_secret_unknown [OF s1 assms(2)]
    by blast
  show ?thesis using first second by simp
qed

theorem create_secret_twice_witness:
  "secrets vendor_world ''arn:vendor'' = Some [vendor_current, vendor_pending] \<and>
   holders CURRENT [vendor_current, vendor_pending] = [vendor_current] \<and>
   holders PENDING [vendor_current, vendor_pending] = [vendor_pending] \<and>
   secret_string vendor_current ''api_key'' \<noteq> None \<and>
   (\<exists>w1 w2. create_secret counting_env ''arn:vendor'' vendor_world = (Inr (), w1) \<and>
      create_secret counting_env ''arn:vendor'' w1 = (Inr (), w2) \<and>
      secrets w2 = secrets vendor_world \<and> drawn w2 = drawn vendor_world \<and>
      calls w2 = calls vendor_world @
        [GetSecretValue ''arn:vendor'' None, GetSecretValue ''arn:vendor'' None])"
proof -
  have h1: "secrets vendor_world ''arn:vendor'' = Some [vendor_current, vendor_pending]"
    by (simp add: vendor_world_def)
  have h2: "holders CURRENT [vendor_current, vendor_pending] = [vendor_current]"
    by (simp add: holders_def vendor_current_def vendor_pending_def)
  have h3: "holders PENDING [vendor_current, vendor_pending] = [vendor_pending]"
    by (simp add: holders_def vendor_current_def vendor_pending_def)
  have h4: "secret_string vendor_current ''api_key'' \<noteq> None"
    by (simp add: vendor_current_def)
  show ?thesis
    using create_secret_twice [OF h1 h2 disjI1 [OF h4], of counting_env] h1 h2 h3 h4 by blast
qed

text \<open>
  C2, as stated, fails: on a secret with a \<open>password\<close> field that already has a
  PENDING version, \<open>create_secret\<close> does not return success, and it has drawn the 32
  characters of another password.
\<close>

theorem create_secret_repeats_counterexample:
  "secrets rotating_world ''arn:db'' = Some [old_password, candidate_password] \<and>
   holders PENDING [old_password, candidate_password] = [candidate_password] \<and>
   fst (create_secret counting_env ''arn:db'' rotating_world) = Inl (NameError ''datetime'') \<and>
   drawn rotating_world = 0 \<and>
   drawn (snd (create_secret counting_env ''arn:db'' rotating_world)) = 32"
proof -
  have h1: "secrets rotating_world ''arn:db'' = Some [old_password, candidate_password]"
    by (simp add: rotating_world_def)
  have h2: "holders CURRENT [old_password, candidate_password] = [old_password]"
    by (simp add: holders_def old_password_def candidate_password_def)
  have h3: "holders PENDING [old_password, candidate_password] = [candidate_password]"
    by (simp add: holders_def old_password_def candidate_password_def)
  have h4: "secret_string old_password ''api_key'' = None"
    and h5: "secret_string old_password ''password'' \<noteq> None"
    by (simp_all add: old_password_def)
  have d: "drawn rotating_world = 0" by (simp add: rotating_world_def)
  show ?thesis
    using create_secret_password [OF h1 h2 h4 h5, of counting_env] h1 h3 d by simp
qed

text \<open>
  C3 says that for a secret whose CURRENT value has a \<open>password\<close> field and no
  \<open>api_key\<close> field, \<open>create_secret\<close> succeeds and writes a PENDING version with a
  fresh 32-character password and a creation timestamp. On the secret
  \<open>{password: old}\<close> the code generates the password and then raises \<open>NameError\<close>
  at the timestamp: no version is written, no version holds PENDING, and the handler
  answers with status 500.
\<close>

theorem create_secret_password_raises:
  "secrets password_world ''arn:db'' = Some [old_password] \<and>
   create_secret counting_env ''arn:db'' password_world =
     (Inl (NameError ''datetime''),
      password_world\<lparr>calls := [GetSecretValue ''arn:db'' None], drawn := 32\<rparr>) \<and>
   secrets (snd (create_secret counting_env ''arn:db'' password_world)) ''arn:db'' =
     Some [old_password] \<and>
   holders PENDING [old_password] = [] \<and>
   handler counting_env \<lparr>SecretId = Some ''arn:db'', Step = Some ''createSecret''\<rparr>
       password_world =
     (\<lparr>statusCode = 500, body = Error (str_exn (NameError ''datetime'')) ''arn:db''\<rparr>,
      password_world\<lparr>calls := [GetSecretValue ''arn:db'' None], drawn := 32\<rparr>)"
proof -
  have h1: "secrets password_world ''arn:db'' = Some [old_password]"
    by (simp add: password_world_def)
  have h2: "holders CURRENT [old_password] = [old_password]"
    by (simp add: holders_def old_password_def)
  have h3: "holders PENDING [old_password] = []"
    by (simp add: holders_def old_password_def)
  have h4: "secret_string old_password ''api_key'' = None"
    and h5: "secret_string old_password ''password'' \<noteq> None"
    by (simp_all add: old_password_def)
  have c: "create_secret counting_env ''arn:db'' password_world =
     (Inl (NameError ''datetime''),
      password_world\<lparr>calls := [GetSecretValue ''arn:db'' None], drawn := 32\<rparr>)"
    using create_secret_password [OF h1 h2 h4 h5, of counting_env]
    by (simp add: logged_def password_world_def)
  have h: "handler counting_env \<lparr>SecretId = Some ''arn:db'', Step = Some ''createSecret''\<rparr>
       password_world =
     (\<lparr>statusCode = 500, body = Error (str_exn (NameError ''datetime'')) ''arn:db''\<rparr>,
      password_world\<lparr>calls := [GetSecretValue ''arn:db'' None], drawn := 32\<rparr>)"
    by (simp add: handler_def run_step_def failure_def c)
  have s: "secrets (snd (create_secret counting_env ''arn:db'' password_world)) ''arn:db'' =
     Some [old_password]"
    by (simp add: c h1)
  show ?thesis using h1 c s h3 h by blast
qed

section \<open>Properties of the identity triggers\<close>

lemma set_email_failure:
  "fst (set_email subject message ev) \<noteq> None \<Longrightarrow> snd (set_email subject message ev) = ev"
  by (simp add: set_email_def split: option.splits)

lemma customizers_failure:
  "fst (customize_signup_message ev ua) \<noteq> None \<Longrightarrow> snd (customize_signup_message ev ua) = ev"
  "fst (customize_resend_code_message ev ua) \<noteq> None \<Longrightarrow>
     snd (customize_resend_code_message ev ua) = ev"
  "fst (customize_forgot_password_message ev ua) \<noteq> None \<Longrightarrow>
     snd (customize_forgot_password_message ev ua) = ev"
  "fst (customize_update_attribute_message ev ua) \<noteq> None \<Longrightarrow>
     snd (customize_update_attribute_message ev ua) = ev"
  "fst (customize_verify_attribute_message ev ua) \<noteq> None \<Longrightarrow>
     snd (customize_verify_attribute_message ev ua) = ev"
  "fst (customize_authentication_message ev ua) \<noteq> None \<Longrightarrow>
     snd (customize_authentication_message ev ua) = ev"
  using set_email_failure
  by (auto simp add: customize_signup_message_def customize_resend_code_message_def
      customize_forgot_password_message_def customize_update_attribute_message_def
      customize_verify_attribute_message_def customize_authentication_message_def Let_def
      split: sum.splits)

lemma custom_message_try_failure:
  "fst (custom_message_try ev) \<noteq> None \<Longrightarrow> snd (custom_message_try ev) = ev"
  using customizers_failure [of ev "get_user_attributes ev"]
  by (simp add: custom_message_try_def Let_def split: if_splits)

lemma custom_message_returns: "custom_message_handler ev = Inr (snd (custom_message_try ev))"
  by (simp add: custom_message_handler_def split: prod.splits option.splits)

lemma post_confirmation_returns: "fst (post_confirmation_handler sv ev ws) = Inr ev"
  by (simp add: post_confirmation_handler_def Let_def split: prod.splits option.splits)

lemma post_authentication_returns: "fst (post_authentication_handler sv ev ws) = Inr ev"
  by (simp add: post_authentication_handler_def Let_def split: prod.splits option.splits)

text \<open>
  C9. The failure policy of the identity triggers. The custom-message handler never
  raises, and when its body fails it returns the event unmodified; the post-confirmation
  and post-authentication handlers return the event unmodified whatever the profile store
  does. The pre-signup handler raises when the age validation fails, and the
  pre-authentication handler raises when the validation of the user's status fails.
\<close>

theorem identity_trigger_failures:
  "custom_message_handler ev = Inr (snd (custom_message_try ev)) \<and>
   (fst (custom_message_try ev) \<noteq> None \<longrightarrow> custom_message_handler ev = Inr ev) \<and>
   fst (post_confirmation_handler sv ev ws) = Inr ev \<and>
   fst (post_authentication_handler sv ev ws) = Inr ev \<and>
   (get_user_attributes ev ''birthdate'' = Some birthdate \<and> birthdate \<noteq> [] \<and>
      \<not> validate_age sv birthdate \<longrightarrow>
    pre_signup_handler sv ev =
      Inl (ValueError ''Users must be 13 years or older to register'')) \<and>
   (\<not> validate_user_status (get_str (userName ev) []) (get_user_attributes ev) \<longrightarrow>
    pre_authentication_handler ev =
      Inl (ValueError ''Account access has been restricted. Please contact support.''))"
proof -
  have a: "fst (custom_message_try ev) \<noteq> None \<longrightarrow> custom_message_handler ev = Inr ev"
    using custom_message_try_failure [of ev] by (simp add: custom_message_returns)
  have b: "get_user_attributes ev ''birthdate'' = Some birthdate \<and> birthdate \<noteq> [] \<and>
      \<not> validate_age sv birthdate \<longrightarrow>
    pre_signup_handler sv ev =
      Inl (ValueError ''Users must be 13 years or older to register'')"
    by (simp add: pre_signup_handler_def Let_def)
  have c: "\<not> validate_user_status (get_str (userName ev) []) (get_user_attributes ev) \<longrightarrow>
    pre_authentication_handler ev =
      Inl (ValueError ''Account access has been restricted. Please contact support.'')"
    by (simp add: pre_authentication_handler_def Let_def)
  show ?thesis
    using a b c custom_message_returns [of ev] post_confirmation_returns [of sv ev ws]
      post_authentication_returns [of sv ev ws]
    by blast
qed

theorem identity_trigger_failures_witness:
  "fst (custom_message_try signup_without_code) = Some (KeyError ''codeParameter'') \<and>
   custom_message_handler signup_without_code = Inr signup_without_code \<and>
   table_error failing_tables ''innerworld-user-profiles'' \<noteq> None \<and>
   fst (post_confirmation_handler failing_tables signup_without_code []) =
     Inr signup_without_code \<and>
   fst (post_authentication_handler failing_tables signup_without_code []) =
     Inr signup_without_code \<and>
   get_user_attributes child_signup ''birthdate'' = Some ''2020-06-15'' \<and>
   ''2020-06-15'' \<noteq> [] \<and> \<not> validate_age failing_tables ''2020-06-15'' \<and>
   pre_signup_handler failing_tables child_signup =
     Inl (ValueError ''Users must be 13 years or older to register'') \<and>
   \<not> validate_user_status (get_str (userName login_without_email) [])
        (get_user_attributes login_without_email) \<and>
   pre_authentication_handler login_without_email =
     Inl (ValueError ''Account access has been restricted. Please contact support.'')"
proof -
  have h1: "fst (custom_message_try signup_without_code) = Some (KeyError ''codeParameter'')"
    by (simp add: custom_message_try_def signup_without_code_def get_str_def Let_def
        customize_signup_message_def request_code_parameter_def)
  have h2: "table_error failing_tables ''innerworld-user-profiles'' \<noteq> None"
    by (simp add: failing_tables_def)
  have h3: "get_user_attributes child_signup ''birthdate'' = Some ''2020-06-15''"
    by (simp add: get_user_attributes_def child_signup_def)
  have h4: "\<not> validate_age failing_tables ''2020-06-15''"
    by (simp add: validate_age_def failing_tables_def)
  have h5: "\<not> validate_user_status (get_str (userName login_without_email) [])
        (get_user_attributes login_without_email)"
    by (simp add: validate_user_status_def get_user_attributes_def login_without_email_def
        get_str_def)
  have f: "''2020-06-15'' \<noteq> []" by simp
  note t1 = identity_trigger_failures [of signup_without_code failing_tables "[]"]
  note t2 = identity_trigger_failures [of child_signup failing_tables "[]" "''2020-06-15''"]
  note t3 = identity_trigger_failures [of login_without_email failing_tables "[]"]
  have n: "fst (custom_message_try signup_without_code) \<noteq> None"
    using h1 by simp
  have a: "custom_message_handler signup_without_code = Inr signup_without_code"
    using t1 n by blast
  have b: "fst (post_confirmation_handler failing_tables signup_without_code []) =
     Inr signup_without_code" using t1 by blast
  have c: "fst (post_authentication_handler failing_tables signup_without_code []) =
     Inr signup_without_code" using t1 by blast
  have d: "pre_signup_handler failing_tables child_signup =
     Inl (ValueError ''Users must be 13 years or older to register'')"
    using t2 h3 h4 f by blast
  have e: "pre_authentication_handler login_without_email =
     Inl (ValueError ''Account access has been restricted. Please contact support.'')"
    using t3 h5 by blast
  show ?thesis using h1 h2 h3 h4 h5 a b c d e f by blast
qed

end
